theory Spec2Isabelle
  imports Complex_Main
begin

section \<open>Conventions\<close>

text \<open>
  The C++ and Python sources compute with IEEE doubles.  Throughout this development a
  \<^verbatim>\<open>double\<close> (and a Python \<^verbatim>\<open>float\<close>) is idealised as a \<^typ>\<open>real\<close>: the theorems
  are about the arithmetic the code writes down, not about its rounding.  An Eigen vector
  and a \<^verbatim>\<open>std::vector\<close> are lists; an \<^verbatim>\<open>unordered_map\<close> read only through
  \<^verbatim>\<open>find\<close>, \<^verbatim>\<open>at\<close> and \<^verbatim>\<open>operator[]\<close> is a map.  A method that can throw returns a
  sum: \<open>Inl (e, s)\<close> is the exception \<open>e\<close> together with the object state \<open>s\<close> at the
  moment it is thrown, \<open>Inr\<close> is the normal return.  Data members keep their source
  names without the trailing underscore (\<^verbatim>\<open>cash_\<close> is \<open>cash\<close>).
\<close>

datatype error =
    OutOfRange          \<comment> \<open>\<^verbatim>\<open>std::out_of_range\<close>, thrown by \<^verbatim>\<open>unordered_map::at\<close>\<close>
  | IndexError          \<comment> \<open>an Eigen or vector index outside the container\<close>
  | LengthError         \<comment> \<open>\<^verbatim>\<open>std::length_error\<close>\<close>
  | ConfigError         \<comment> \<open>\<^verbatim>\<open>ConfigError\<close> of Config.h\<close>
  | BadAnyCast          \<comment> \<open>\<^verbatim>\<open>std::bad_any_cast\<close>\<close>
  | KeyError            \<comment> \<open>Python's \<^verbatim>\<open>KeyError\<close>\<close>
  | DataExhausted       \<comment> \<open>an advance of a file source past its configured bound\<close>

section \<open>Portfolio (Portfolio.h)\<close>

text \<open>The fields of \<^verbatim>\<open>Asset\<close> are those the binding layer exposes (env.cpp).\<close>

record Asset =
  name :: string
  code :: string
  exchange :: string
  bpMultiplier :: real

text \<open>
  The private data members of \<^verbatim>\<open>class Portfolio\<close>.  \<^verbatim>\<open>currentPrices_\<close> is a view onto
  the price buffer of the borrowed data source; the record holds what the view shows.
\<close>

record Portfolio =
  portfolioId :: string
  initCash :: real
  assets :: "Asset list"
  cash :: real
  ledger :: "real list"
  usedMargin :: real
  meanEntryPrices :: "real list"
  borrowedMargin :: "real list"
  requiredMargin :: real
  maintenanceMargin :: real
  assetIdx :: "string \<rightharpoonup> nat"
  currentPrices :: "real list"

definition nAssets :: "Portfolio \<Rightarrow> nat" where
  "nAssets p = length (assets p)"

text \<open>
  Every per-asset vector of a portfolio has one entry per asset of its asset set.
\<close>

definition wellFormed :: "Portfolio \<Rightarrow> bool" where
  "wellFormed p \<longleftrightarrow>
     length (ledger p) = nAssets p \<and>
     length (meanEntryPrices p) = nAssets p \<and>
     length (borrowedMargin p) = nAssets p \<and>
     length (currentPrices p) = nAssets p"

text \<open>
  Modelled from the spec: the body of \<^verbatim>\<open>Portfolio::equity\<close> is not part of the sources
  at hand (only its declaration is).  Section 3, invariant 2:
  equity = cash + \<Sum>(position i \<times> price i) - \<Sum>(borrowedMargin i).
\<close>

definition equity :: "Portfolio \<Rightarrow> real" where
  "equity p =
     cash p + sum_list (map2 (*) (ledger p) (currentPrices p))
       - sum_list (borrowedMargin p)"

text \<open>
  Modelled from the spec: the accounting block of section 4.2, which the body of
  \<^verbatim>\<open>Portfolio::handleTransaction\<close> (not part of the sources at hand) applies to a trade of
  signed \<open>units\<close> at \<open>price\<close> that opens or increases a position:
  \<^verbatim>\<open>
    notional        = units * price
    fundedByCash    = notional * r
    borrowedDelta   = notional * (1 - r)
    cash           -= fundedByCash + transactionCost
    borrowedMargin[asset] += borrowedDelta
    usedMargin     += |fundedByCash|
    ledger[asset]  += units
  \<close>
\<close>

definition transact :: "Portfolio \<Rightarrow> nat \<Rightarrow> real \<Rightarrow> real \<Rightarrow> real \<Rightarrow> Portfolio" where
  "transact p k price units transactionCost =
     (let notional = units * price;
          fundedByCash = notional * requiredMargin p;
          borrowedDelta = notional * (1 - requiredMargin p)
      in p\<lparr>cash := cash p - (fundedByCash + transactionCost),
            borrowedMargin := (borrowedMargin p)[k := borrowedMargin p ! k + borrowedDelta],
            usedMargin := usedMargin p + \<bar>fundedByCash\<bar>,
            ledger := (ledger p)[k := ledger p ! k + units]\<rparr>)"

text \<open>An asset index is usable when it addresses an entry of every per-asset vector.\<close>

definition validIdx :: "Portfolio \<Rightarrow> int \<Rightarrow> bool" where
  "validIdx p i \<longleftrightarrow>
     0 \<le> i \<and> nat i < length (ledger p) \<and> nat i < length (meanEntryPrices p) \<and>
     nat i < length (borrowedMargin p)"

text \<open>
  Modelled from the spec: the notional of an open position that was funded by cash at
  entry, which the body of \<^verbatim>\<open>Portfolio::handleTransaction\<close> (not part of the sources at
  hand) releases when units are closed.  Invariant 4 of section 3 makes it the used margin
  of the position.  From the state of the book it is the entry notional, position times
  mean entry price, less the margin borrowed for the position; for a position built by
  the accounting block at margin fraction \<open>r\<close> that is the entry notional times \<open>r\<close>.
\<close>

definition fundedAtEntry :: "Portfolio \<Rightarrow> nat \<Rightarrow> real" where
  "fundedAtEntry p k = ledger p ! k * meanEntryPrices p ! k - borrowedMargin p ! k"

text \<open>
  Modelled from the spec: the part of the body of \<^verbatim>\<open>Portfolio::handleTransaction\<close> (not
  part of the sources at hand) for a trade that closes \<open>unitsClosed\<close> units, signed like the
  position, of an open position.  Section 4.2: realize
  P&L = (price - meanEntryPrice) * unitsClosed into cash, leave the mean entry price
  unchanged, and reduce used margin and borrowed margin proportionally to the closed
  fraction.  The cash that funded the closed fraction comes back with the released used
  margin, as in the cash-account scenario of section 8, where the full close at 11 of
  1000 units bought at 10 adds 11,000 to the cash: 10,000 released and 1,000 realized.
  The transaction cost is charged as in the accounting block.
\<close>

definition closeUnits :: "Portfolio \<Rightarrow> nat \<Rightarrow> real \<Rightarrow> real \<Rightarrow> real \<Rightarrow> Portfolio" where
  "closeUnits p k price unitsClosed transactionCost =
     (let currentUnits = ledger p ! k;
          closedFraction = \<bar>unitsClosed\<bar> / \<bar>currentUnits\<bar>;
          realizedPnL = (price - meanEntryPrices p ! k) * unitsClosed;
          releasedCash = closedFraction * fundedAtEntry p k
      in p\<lparr>cash := cash p + realizedPnL + releasedCash - transactionCost,
            borrowedMargin := (borrowedMargin p)
              [k := borrowedMargin p ! k - closedFraction * borrowedMargin p ! k],
            usedMargin := usedMargin p - closedFraction * \<bar>fundedAtEntry p k\<bar>,
            ledger := (ledger p)[k := currentUnits - unitsClosed]\<rparr>)"

text \<open>
  Modelled from the spec: the body of
  \<^verbatim>\<open>void Portfolio::handleTransaction(int assetIdx, double transactionPrice, double units,
  double transactionCost)\<close> is not part of the sources at hand.  Section 4.2 gives the
  accounting block for a transaction and the mean-entry-price rule with its three cases:
  \<^item> the trade opens a position or increases its magnitude without changing sign: the
    accounting block applies and the mean entry price becomes the size-weighted average
    of the prior and new entries;
  \<^item> the trade reduces the magnitude without crossing zero: the units are closed as in
    \<open>closeUnits\<close>, the mean entry price is left unchanged;
  \<^item> the trade flips the sign: it is split into a full close of the existing position
    followed by a fresh open at \<open>price\<close> for the residual units (the accounting block), and
    the mean entry price is reset to \<open>price\<close>; the transaction cost is charged once, on
    the closing leg.
  A trade of zero units is none of the three: it is the accounting block at notional 0,
  which charges the transaction cost and nothing else.  An index outside the per-asset
  vectors is reported as \<open>IndexError\<close> before anything is written.
\<close>

definition handleTransaction ::
  "Portfolio \<Rightarrow> int \<Rightarrow> real \<Rightarrow> real \<Rightarrow> real \<Rightarrow> (error \<times> Portfolio) + Portfolio" where
  "handleTransaction p idx transactionPrice units transactionCost =
     (if \<not> validIdx p idx then Inl (IndexError, p)
      else
        let k = nat idx;
            currentUnits = ledger p ! k;
            meanEntryPrice = meanEntryPrices p ! k
        in if units = 0 then
             Inr (transact p k transactionPrice units transactionCost)
           else if currentUnits = 0 \<or> sgn units = sgn currentUnits then
             Inr ((transact p k transactionPrice units transactionCost)
                   \<lparr>meanEntryPrices := (meanEntryPrices p)
                      [k := (\<bar>currentUnits\<bar> * meanEntryPrice + \<bar>units\<bar> * transactionPrice)
                              / (\<bar>currentUnits\<bar> + \<bar>units\<bar>)]\<rparr>)
           else if \<bar>units\<bar> \<le> \<bar>currentUnits\<bar> then
             Inr (closeUnits p k transactionPrice (- units) transactionCost)
           else
             let closed = closeUnits p k transactionPrice currentUnits transactionCost;
                 opened = transact closed k transactionPrice (units + currentUnits) 0
             in Inr (opened\<lparr>meanEntryPrices := (meanEntryPrices p)[k := transactionPrice]\<rparr>))"

text \<open>
  Modelled from the spec: the body of
  \<^verbatim>\<open>void Portfolio::close(int assetIdx, double transactionPrice, double transactionCost)\<close>
  is not part of the sources at hand.  Section 4.2: it computes the exact units needed to
  flatten the asset's position and delegates to the transaction operation.
\<close>

definition close :: "Portfolio \<Rightarrow> int \<Rightarrow> real \<Rightarrow> real \<Rightarrow> (error \<times> Portfolio) + Portfolio" where
  "close p idx transactionPrice transactionCost =
     (if \<not> validIdx p idx then Inl (IndexError, p)
      else handleTransaction p idx transactionPrice (- (ledger p ! nat idx)) transactionCost)"

text \<open>
  Portfolio.h, inline:
  \<^verbatim>\<open>
    void close(string assetCode, double transactionPrice, double transactionCost)
    { close(assetIdx_.at(assetCode), transactionPrice, transactionCost); }
  \<close>
  \<^verbatim>\<open>unordered_map::at\<close> throws \<^verbatim>\<open>std::out_of_range\<close> for a key that is not in the map,
  before anything is written.
\<close>

definition close_code ::
  "Portfolio \<Rightarrow> string \<Rightarrow> real \<Rightarrow> real \<Rightarrow> (error \<times> Portfolio) + Portfolio" where
  "close_code p assetCode transactionPrice transactionCost =
     (case assetIdx p assetCode of
        None \<Rightarrow> Inl (OutOfRange, p)
      | Some k \<Rightarrow> close p (int k) transactionPrice transactionCost)"

text \<open>
  Portfolio.h, inline:
  \<^verbatim>\<open>
    double operator[](string code) { return ledger_(assetIdx_[code]); }
    double operator[](int assetIdx) { return ledger_(assetIdx); }
  \<close>
  \<^verbatim>\<open>unordered_map::operator[]\<close> never throws: for a key that is not in the map it inserts
  the key with a value-initialised \<^verbatim>\<open>unsigned int\<close>, that is 0, and returns a reference to
  it.  The method is not \<^verbatim>\<open>const\<close>, so the insertion changes the portfolio.  Reading an
  Eigen vector outside its size is an error (an assertion failure in a checked build).
\<close>

definition subscript_code :: "Portfolio \<Rightarrow> string \<Rightarrow> (error \<times> Portfolio) + (real \<times> Portfolio)" where
  "subscript_code p c =
     (let p' = (case assetIdx p c of
                  None \<Rightarrow> p\<lparr>assetIdx := (assetIdx p)(c \<mapsto> 0)\<rparr>
                | Some k \<Rightarrow> p);
          k = (case assetIdx p c of None \<Rightarrow> 0 | Some k \<Rightarrow> k)
      in if k < length (ledger p') then Inr (ledger p' ! k, p') else Inl (IndexError, p'))"

definition subscript_idx :: "Portfolio \<Rightarrow> int \<Rightarrow> (error \<times> Portfolio) + (real \<times> Portfolio)" where
  "subscript_idx p idx =
     (if 0 \<le> idx \<and> nat idx < length (ledger p) then Inr (ledger p ! nat idx, p)
      else Inl (IndexError, p))"

text \<open>
  A portfolio over the single asset X as the spec's scenarios set it up: initial cash
  1,000,000 and price 10 for X.  \<open>scenarioPortfolio r\<close> has required-margin fraction \<open>r\<close>
  and no position; \<open>longPortfolio\<close> already holds 10 units bought at 8 with a quarter of
  the notional funded by cash.
\<close>

definition assetX :: Asset where
  "assetX = \<lparr>name = ''X'', code = ''X'', exchange = [], bpMultiplier = 1\<rparr>"

definition scenarioPortfolio :: "real \<Rightarrow> Portfolio" where
  "scenarioPortfolio r =
     \<lparr>portfolioId = ''ledger_default'', initCash = 1000000, assets = [assetX],
      cash = 1000000, ledger = [0], usedMargin = 0, meanEntryPrices = [0],
      borrowedMargin = [0], requiredMargin = r, maintenanceMargin = 0.25,
      assetIdx = [''X'' \<mapsto> 0], currentPrices = [10]\<rparr>"

definition longPortfolio :: Portfolio where
  "longPortfolio =
     \<lparr>portfolioId = ''ledger_default'', initCash = 1000000, assets = [assetX],
      cash = 999980, ledger = [10], usedMargin = 20, meanEntryPrices = [8],
      borrowedMargin = [60], requiredMargin = 0.25, maintenanceMargin = 0.25,
      assetIdx = [''X'' \<mapsto> 0], currentPrices = [10]\<rparr>"

section \<open>The periodic generator Synth (DataSource.h, DataSource.cpp)\<close>

text \<open>\<^verbatim>\<open>#define PI2 (3.141592653589793238463*2)\<close>\<close>

definition PI2 :: real where
  "PI2 = 3.141592653589793238463 * 2"

text \<open>
  The data members of \<^verbatim>\<open>class Synth\<close> that its constructors and \<^verbatim>\<open>getData\<close> use.  The
  assets are kept by the names passed to the \<^verbatim>\<open>Asset\<close> constructor.
\<close>

record Synth =
  synth_assets :: "string list"
  synth_nAssets :: nat
  synth_dX :: real
  synth_freq :: "real list"
  synth_mu :: "real list"
  synth_amp :: "real list"
  synth_initPhase :: "real list"
  synth_x :: "real list"
  synth_currentData :: "real list"

text \<open>The object before a constructor body runs: \<^verbatim>\<open>double dX{0.01}\<close>, empty vectors.\<close>

definition newSynth :: Synth where
  "newSynth = \<lparr>synth_assets = [], synth_nAssets = 0, synth_dX = 0.01, synth_freq = [],
     synth_mu = [], synth_amp = [], synth_initPhase = [], synth_x = [],
     synth_currentData = []\<rparr>"

text \<open>\<^verbatim>\<open>std::to_string\<close> on a non-negative integer: its decimal digits.\<close>

fun to_string :: "nat \<Rightarrow> string" where
  "to_string n =
     (if n < 10 then [''0123456789'' ! n]
      else to_string (n div 10) @ [''0123456789'' ! (n mod 10)])"

declare to_string.simps [simp del]

text \<open>
  \<^verbatim>\<open>
    for (int i=0; i < freq.size(); i++){
      std::string assetName = "sine_" + std::to_string(i);
      this->assets.push_back(Asset(assetName));
    }
  \<close>
  \<open>pushSineAssets i n\<close> is the loop from counter \<open>i\<close> with \<open>n\<close> iterations left.
\<close>

fun pushSineAssets :: "nat \<Rightarrow> nat \<Rightarrow> string list \<Rightarrow> string list" where
  "pushSineAssets i 0 as = as"
| "pushSineAssets i (Suc n) as = pushSineAssets (Suc i) n (as @ [''sine_'' @ to_string i])"

text \<open>
  \<^verbatim>\<open>
    void Synth::initParams(std::vector<double> _freq, std::vector<double> _mu,
                           std::vector<double> _amp, std::vector<double> _phase, double _dX)
    {
      this->freq=_freq; this->mu=_mu; this->amp=_amp;
      this->initPhase=_phase; this->x=_phase; this->dX=_dX;
      for ... push_back ...
      this->nAssets = assets.size();
      currentData_.resize(nAssets);
    }
  \<close>
  Eigen's \<^verbatim>\<open>resize\<close> leaves the coefficients uninitialised; the model writes 0 there.
\<close>

definition initParams ::
  "Synth \<Rightarrow> real list \<Rightarrow> real list \<Rightarrow> real list \<Rightarrow> real list \<Rightarrow> real \<Rightarrow> Synth" where
  "initParams this freq' mu' amp' phase' dX' =
     (let as = pushSineAssets 0 (length freq') (synth_assets this)
      in this\<lparr>synth_freq := freq', synth_mu := mu', synth_amp := amp',
               synth_initPhase := phase', synth_x := phase', synth_dX := dX',
               synth_assets := as, synth_nAssets := length as,
               synth_currentData := replicate (length as) 0\<rparr>)"

text \<open>
  \<^verbatim>\<open>Synth::Synth()\<close>: the default parameters.  The constructor passes the member \<^verbatim>\<open>dX\<close>
  (0.01 by its in-class initialiser), not its local \<^verbatim>\<open>_dX\<close>.
\<close>

definition Synth_default :: Synth where
  "Synth_default =
     initParams newSynth [1, 0.3, 2, 0.5] [2, 2.1, 2.2, 2.3] [1, 1.2, 1.3, 1] [0, 1, 2, 1]
       (synth_dX newSynth)"

text \<open>
  \<^verbatim>\<open>
    Synth::Synth(std::vector<double> _freq, std::vector<double> _mu,
                 std::vector<double> _amp, std::vector<double> _phase, double _dX){
      if ((_freq.size() == _mu.size()) && (_mu.size() == _amp.size()) &&
          (_amp.size() == _phase.size())){
        initParams(_freq, _mu, _amp, _phase, _dX);
      }
      else{
        throw std::length_error("parameters passed to DataSource of type Synth"
                                " need to be vectors of same length");
      }
    }
  \<close>
\<close>

definition Synth_params ::
  "real list \<Rightarrow> real list \<Rightarrow> real list \<Rightarrow> real list \<Rightarrow> real \<Rightarrow> error + Synth" where
  "Synth_params freq' mu' amp' phase' dX' =
     (if length freq' = length mu' \<and> length mu' = length amp' \<and> length amp' = length phase'
      then Inr (initParams newSynth freq' mu' amp' phase' dX')
      else Inl LengthError)"

text \<open>
  \<^verbatim>\<open>Config\<close> is a string-keyed map of \<^verbatim>\<open>std::any\<close> (Config.h is not part of the sources at
  hand; env.cpp has the same shape as \<^verbatim>\<open>unordered_map<string, std::any>\<close>).  The values a
  configuration holds are a tagged union of scalar, vector of scalars, string and nested
  configuration; \<^verbatim>\<open>std::any_cast\<close> to another type throws \<^verbatim>\<open>std::bad_any_cast\<close>.
\<close>

datatype any =
    AnyDouble real
  | AnyInt int
  | AnyString string
  | AnyVector "real list"
  | AnyConfig "(string \<times> any) list"
  | AnyEmpty

type_synonym Config = "(string \<times> any) list"

definition find_key :: "Config \<Rightarrow> string \<Rightarrow> any option" where
  "find_key config key = map_of config key"

text \<open>
  \<^verbatim>\<open>config[key]\<close>: the value stored under the key, or an empty \<^verbatim>\<open>std::any\<close> for a key that
  is not there (the constructors work on their own copy of the configuration).
\<close>

definition subscript_key :: "Config \<Rightarrow> string \<Rightarrow> any" where
  "subscript_key config key = (case find_key config key of None \<Rightarrow> AnyEmpty | Some a \<Rightarrow> a)"

definition any_cast_Config :: "any \<Rightarrow> error + Config" where
  "any_cast_Config a = (case a of AnyConfig c \<Rightarrow> Inr c | _ \<Rightarrow> Inl BadAnyCast)"

definition any_cast_vector :: "any \<Rightarrow> error + real list" where
  "any_cast_vector a = (case a of AnyVector v \<Rightarrow> Inr v | _ \<Rightarrow> Inl BadAnyCast)"

definition any_cast_double :: "any \<Rightarrow> error + real" where
  "any_cast_double a = (case a of AnyDouble d \<Rightarrow> Inr d | _ \<Rightarrow> Inl BadAnyCast)"

text \<open>
  \<^verbatim>\<open>
    for (auto key: {"freq", "mu", "amp", "phase", "dX"}){
      if (params.find(key) == params.end()){
        allParamsPresent=false;
        throw ConfigError("generator parameters don't have all required constructor arguments");
      }
    }
  \<close>
  \<open>requireKeys params keys\<close> is \<open>True\<close> when the loop finishes without throwing.
\<close>

fun requireKeys :: "Config \<Rightarrow> string list \<Rightarrow> bool" where
  "requireKeys params [] = True"
| "requireKeys params (key # keys) =
     (if find_key params key = None then False else requireKeys params keys)"

text \<open>
  \<^verbatim>\<open>
    Synth::Synth(Config config){
      bool allParamsPresent{true};
      if (config.find("generator_params") == config.end()){
        throw ConfigError("config passed but doesn't contain generator params");
        allParamsPresent = false;
      }
      Config params = std::any_cast<Config>(config["generator_params"]);
      for ... (the loop above)
      if (allParamsPresent){
        vector<double> freq = std::any_cast<vector<double>>(params["freq"]);
        vector<double> mu = std::any_cast<vector<double>>(params["mu"]);
        vector<double> amp = std::any_cast<vector<double>>(params["amp"]);
        vector<double> phase = std::any_cast<vector<double>>(params["phase"]);
        double dX = std::any_cast<double>(params["dX"]);
        initParams(freq, mu, amp, phase, dX);
      }
      else{ ... default parameters ... }
    }
  \<close>
  Both places that clear \<^verbatim>\<open>allParamsPresent\<close> throw, so the \<^verbatim>\<open>else\<close> branch with the default
  parameters is never reached.  No length of the four vectors is compared with another.
\<close>

definition Synth_Config :: "Config \<Rightarrow> error + Synth" where
  "Synth_Config config =
     (case find_key config ''generator_params'' of
        None \<Rightarrow> Inl ConfigError
      | Some g \<Rightarrow>
         (case any_cast_Config (subscript_key config ''generator_params'') of
            Inl e \<Rightarrow> Inl e
          | Inr params \<Rightarrow>
             if \<not> requireKeys params [''freq'', ''mu'', ''amp'', ''phase'', ''dX'']
             then Inl ConfigError
             else
               (case any_cast_vector (subscript_key params ''freq'') of
                  Inl e \<Rightarrow> Inl e
                | Inr freq' \<Rightarrow>
               (case any_cast_vector (subscript_key params ''mu'') of
                  Inl e \<Rightarrow> Inl e
                | Inr mu' \<Rightarrow>
               (case any_cast_vector (subscript_key params ''amp'') of
                  Inl e \<Rightarrow> Inl e
                | Inr amp' \<Rightarrow>
               (case any_cast_vector (subscript_key params ''phase'') of
                  Inl e \<Rightarrow> Inl e
                | Inr phase' \<Rightarrow>
               (case any_cast_double (subscript_key params ''dX'') of
                  Inl e \<Rightarrow> Inl e
                | Inr dX' \<Rightarrow> Inr (initParams newSynth freq' mu' amp' phase' dX'))))))))"

text \<open>
  \<^verbatim>\<open>
    const PriceVector& Synth::getData() {
      for (int i=0; i < nAssets; i++){
        currentData_[i] = mu[i] + amp[i] * std::sin(PI2*x[i]*freq[i]);
        x[i] += dX;
      }
      return currentData_;
    }
  \<close>
  \<open>getData_loop i s\<close> is the loop from counter \<open>i\<close>.  An index outside one of the vectors is
  undefined behaviour in the source and an \<open>IndexError\<close> here.
\<close>

function getData_loop :: "nat \<Rightarrow> Synth \<Rightarrow> error + Synth" where
  "getData_loop i s =
     (if i < synth_nAssets s then
        if i < length (synth_mu s) \<and> i < length (synth_amp s) \<and> i < length (synth_x s)
           \<and> i < length (synth_freq s) \<and> i < length (synth_currentData s)
        then getData_loop (Suc i)
               (s\<lparr>synth_currentData := (synth_currentData s)
                     [i := synth_mu s ! i
                           + synth_amp s ! i * sin (PI2 * synth_x s ! i * synth_freq s ! i)],
                  synth_x := (synth_x s)[i := synth_x s ! i + synth_dX s]\<rparr>)
        else Inl IndexError
      else Inr s)"
  by pat_completeness auto
termination
  by (relation "measure (\<lambda>(i, s). synth_nAssets s - i)") auto

declare getData_loop.simps [simp del]

definition getData :: "Synth \<Rightarrow> error + (real list \<times> Synth)" where
  "getData s =
     (case getData_loop 0 s of
        Inl e \<Rightarrow> Inl e
      | Inr s' \<Rightarrow> Inr (synth_currentData s', s'))"

text \<open>The state after \<open>t\<close> calls of \<^verbatim>\<open>getData\<close>.\<close>

fun getData_times :: "nat \<Rightarrow> Synth \<Rightarrow> error + Synth" where
  "getData_times 0 s = Inr s"
| "getData_times (Suc t) s =
     (case getData_times t s of
        Inl e \<Rightarrow> Inl e
      | Inr s' \<Rightarrow> (case getData s' of Inl e \<Rightarrow> Inl e | Inr (obs, s'') \<Rightarrow> Inr s''))"

text \<open>
  A generator is ready for \<^verbatim>\<open>getData\<close> when each of the vectors the loop indexes has
  \<^verbatim>\<open>nAssets\<close> entries.
\<close>

definition synthReady :: "Synth \<Rightarrow> bool" where
  "synthReady s \<longleftrightarrow>
     length (synth_mu s) = synth_nAssets s \<and> length (synth_amp s) = synth_nAssets s \<and>
     length (synth_x s) = synth_nAssets s \<and> length (synth_freq s) = synth_nAssets s \<and>
     length (synth_currentData s) = synth_nAssets s"

text \<open>The generator after one more call of \<^verbatim>\<open>getData\<close>.\<close>

definition Synth_step :: "Synth \<Rightarrow> Synth" where
  "Synth_step s = (case getData s of Inl e \<Rightarrow> s | Inr (obs, s') \<Rightarrow> s')"

section \<open>End of data and reset (DataSource.h)\<close>

text \<open>
  The cursor state of \<^verbatim>\<open>class HDFSourceSingle\<close>; \<^verbatim>\<open>std::size_t\<close> is read as a natural
  number (the members are only compared and assigned here).  \<^verbatim>\<open>boundsIdx_\<close> holds the first
  and the one-past-last row index of the configured window \<^verbatim>\<open>[startTime, endTime)\<close>.
\<close>

record HDFSourceSingle =
  single_startTime :: nat
  single_endTime :: nat
  single_cacheSize :: nat
  single_fullDataSetLen :: nat
  single_timestamp :: nat
  single_currentIdx :: nat
  single_currentCacheIdx :: nat
  single_currentCacheSize :: nat
  single_boundsIdx :: "nat \<times> nat"

text \<open>
  \<^verbatim>\<open>class HDFSourceMulti\<close> derives from \<^verbatim>\<open>DataSource<PriceMatrix>\<close> and leaves its pure
  virtual \<^verbatim>\<open>nFeats()\<close> without an override: the class is abstract and has no objects.  The
  classes derived from \<^verbatim>\<open>DataSourceTick\<close> other than \<^verbatim>\<open>HDFSourceSingle\<close> are the generators;
  none of them overrides \<^verbatim>\<open>dataEnd\<close>.
\<close>

datatype generatorClass =
    CompositeClass | SynthClass | SineAdderClass | SineDynamicClass | SineDynamicTrendClass
  | SawToothClass | TriangleClass | GaussianClass | OUClass | OUDynamicClass | OUPairClass
  | CointPairClass | SimpleTrendClass | TrendOUClass | TrendyOUClass

text \<open>
  An object of the data source family: its dynamic class and its state.  The state of a
  generator is whatever its class keeps, \<open>'s\<close>.
\<close>

datatype 's DataSource =
    HDFSingle HDFSourceSingle
  | Generator generatorClass 's

text \<open>
  The virtual method \<^verbatim>\<open>dataEnd\<close>.  The base class defines
  \<^verbatim>\<open>virtual bool dataEnd() const { return false; }\<close>; the only override is
  \<^verbatim>\<open>bool HDFSourceSingle::dataEnd() const override { return currentIdx_ == boundsIdx_.second; }\<close>.
\<close>

fun dataEnd :: "'s DataSource \<Rightarrow> bool" where
  "dataEnd (HDFSingle h) = (single_currentIdx h = snd (single_boundsIdx h))"
| "dataEnd (Generator c s) = False"

text \<open>
  Modelled from the spec: the body of \<^verbatim>\<open>void HDFSourceSingle::loadData()\<close> is not part of
  the sources at hand.  Section 4.1: the source reads its window into a bounded in-memory
  cache and refills the cache by re-reading the next stretch of the window when it is
  exhausted.  The cache then holds the rows from the cursor on, at most \<^verbatim>\<open>cacheSize\<close> of
  them and none beyond the end of the window.
\<close>

definition loadData :: "HDFSourceSingle \<Rightarrow> HDFSourceSingle" where
  "loadData h =
     h\<lparr>single_currentCacheIdx := 0,
       single_currentCacheSize :=
         min (single_cacheSize h) (snd (single_boundsIdx h) - single_currentIdx h)\<rparr>"

text \<open>
  Modelled from the spec: the body of \<^verbatim>\<open>const PriceVector& HDFSourceSingle::getData()\<close> is
  not part of the sources at hand.  Section 4.1: an advance walks the cache, refilling it
  when exhausted, until the configured end bound is reached; each advance moves the
  cursor by one row.  Section 7: an advance at the bound is a contract violation, here
  the error \<open>DataExhausted\<close>.  The rows themselves are in the file and not in the model.
\<close>

definition HDFSourceSingle_getData :: "HDFSourceSingle \<Rightarrow> error + HDFSourceSingle" where
  "HDFSourceSingle_getData h =
     (if single_currentIdx h = snd (single_boundsIdx h) then Inl DataExhausted
      else
        let h' = (if single_currentCacheIdx h = single_currentCacheSize h then loadData h
                  else h)
        in Inr (h'\<lparr>single_currentCacheIdx := Suc (single_currentCacheIdx h'),
                   single_currentIdx := Suc (single_currentIdx h')\<rparr>))"

text \<open>The state after \<open>n\<close> advances.\<close>

fun HDFSourceSingle_advance :: "nat \<Rightarrow> HDFSourceSingle \<Rightarrow> error + HDFSourceSingle" where
  "HDFSourceSingle_advance 0 h = Inr h"
| "HDFSourceSingle_advance (Suc n) h =
     (case HDFSourceSingle_advance n h of
        Inl e \<Rightarrow> Inl e
      | Inr h' \<Rightarrow> HDFSourceSingle_getData h')"

text \<open>
  Modelled from the spec: the body of \<^verbatim>\<open>void HDFSourceSingle::reset()\<close> is not part of the
  sources at hand.  Sections 4.1 and 8: \<^verbatim>\<open>reset()\<close> is a true cursor rewind, it restores the
  cursor to the start of the window; the cache is read again from there.
\<close>

definition HDFSourceSingle_reset :: "HDFSourceSingle \<Rightarrow> HDFSourceSingle" where
  "HDFSourceSingle_reset h = loadData (h\<lparr>single_currentIdx := fst (single_boundsIdx h)\<rparr>)"

text \<open>
  The data members of \<^verbatim>\<open>class Composite\<close>.  The children are owned through pointers to
  the base class; \<open>'src\<close> is the type of a child object.
\<close>

record 'src Composite =
  comp_dataSources :: "'src list"
  comp_currentPrices :: "real list"
  comp_currentData :: "real list"
  comp_timestamp :: nat
  comp_nFeats :: int

text \<open>
  \<^verbatim>\<open>
    void reset() {for (auto& source: dataSources_){
        source->reset();
      }}
  \<close>
  \<open>reset\<close> is the virtual \<^verbatim>\<open>reset\<close> of a child.  \<open>resetEach reset k srcs\<close> runs the loop
  over the children \<open>srcs\<close>, the first of which has position \<open>k\<close>; beside the children after
  the loop it returns the positions on which \<^verbatim>\<open>reset\<close> was called, in the order of the
  calls.
\<close>

fun resetEach :: "('src \<Rightarrow> 'src) \<Rightarrow> nat \<Rightarrow> 'src list \<Rightarrow> 'src list \<times> nat list" where
  "resetEach reset k [] = ([], [])"
| "resetEach reset k (source # srcs) =
     (let source' = reset source;
          (srcs', calls) = resetEach reset (Suc k) srcs
      in (source' # srcs', k # calls))"

definition Composite_reset ::
  "('src \<Rightarrow> 'src) \<Rightarrow> 'src Composite \<Rightarrow> 'src Composite \<times> nat list" where
  "Composite_reset reset c =
     (let (srcs', calls) = resetEach reset 0 (comp_dataSources c)
      in (c\<lparr>comp_dataSources := srcs'\<rparr>, calls))"

text \<open>
  A single-asset file source over 10 rows with the window of rows 2 to 7 and a cache of
  4 rows, with the cursor at a given row.
\<close>

definition windowedSingle :: "nat \<Rightarrow> HDFSourceSingle" where
  "windowedSingle idx =
     \<lparr>single_startTime = 20, single_endTime = 80, single_cacheSize = 4,
      single_fullDataSetLen = 10, single_timestamp = 0, single_currentIdx = idx,
      single_currentCacheIdx = 0, single_currentCacheSize = 4, single_boundsIdx = (2, 8)\<rparr>"

section \<open>The accounting prototype (notebook ``Accounting Logic'')\<close>

text \<open>
  The Python class \<^verbatim>\<open>Portfolio\<close> of the notebook.  Its attributes \<^verbatim>\<open>ledger\<close>,
  \<^verbatim>\<open>init_cash\<close>, \<^verbatim>\<open>type\<close>, \<^verbatim>\<open>_cash\<close>, \<^verbatim>\<open>initial_margin\<close>, \<^verbatim>\<open>_used_margin\<close>, \<^verbatim>\<open>_borrowed_cash\<close>
  and \<^verbatim>\<open>_available_margin\<close> carry the prefix \<open>py_\<close> here.  The ledger is a dictionary in
  insertion order, an association list with one entry per key; the global
  \<^verbatim>\<open>current_prices\<close> is passed as an argument.
\<close>

record PyPortfolio =
  py_ledger :: "(string \<times> real) list"
  py_init_cash :: real
  py_type :: string
  py_cash :: real
  py_initial_margin :: real
  py_used_margin :: real
  py_borrowed_cash :: real
  py_available_margin :: real

text \<open>
  \<^verbatim>\<open>
    def __init__(self, assets: list, init_cash=1_000_000, acc_type="cash", init_margin=1.0):
        self.ledger = {asset: 0. for asset in assets}
        self.init_cash = init_cash
        self.type = acc_type
        self._cash = init_cash
        self.initial_margin = init_margin
        self._used_margin = 0.
        self._borrowed_cash = 0.
        self._available_margin = init_cash
  \<close>
  \<open>dict_set\<close> is the assignment \<^verbatim>\<open>d[k] = v\<close>.
\<close>

fun dict_set :: "(string \<times> real) list \<Rightarrow> string \<Rightarrow> real \<Rightarrow> (string \<times> real) list" where
  "dict_set [] k v = [(k, v)]"
| "dict_set ((k', v') # d) k v = (if k' = k then (k, v) # d else (k', v') # dict_set d k v)"

fun zeroLedger :: "string list \<Rightarrow> (string \<times> real) list \<Rightarrow> (string \<times> real) list" where
  "zeroLedger [] d = d"
| "zeroLedger (asset # as) d = zeroLedger as (dict_set d asset 0)"

definition PyPortfolio_init :: "string list \<Rightarrow> real \<Rightarrow> string \<Rightarrow> real \<Rightarrow> PyPortfolio" where
  "PyPortfolio_init as init_cash acc_type init_margin =
     \<lparr>py_ledger = zeroLedger as [], py_init_cash = init_cash, py_type = acc_type,
      py_cash = init_cash, py_initial_margin = init_margin, py_used_margin = 0,
      py_borrowed_cash = 0, py_available_margin = init_cash\<rparr>"

text \<open>
  \<^verbatim>\<open>
    def transaction_cash(self, asset_name, units):
        amount = current_prices[asset_name] * units
        self._cash -= amount
        self.ledger[asset_name] += units
  \<close>
  A dictionary read of a missing key raises \<^verbatim>\<open>KeyError\<close>; what was assigned before stays
  assigned.
\<close>

definition transaction_cash ::
  "(string \<rightharpoonup> real) \<Rightarrow> PyPortfolio \<Rightarrow> string \<Rightarrow> real
     \<Rightarrow> (error \<times> PyPortfolio) + PyPortfolio" where
  "transaction_cash current_prices self asset_name units =
     (case current_prices asset_name of
        None \<Rightarrow> Inl (KeyError, self)
      | Some price \<Rightarrow>
         (let amount = price * units;
              s1 = self\<lparr>py_cash := py_cash self - amount\<rparr>
          in (case map_of (py_ledger s1) asset_name of
                None \<Rightarrow> Inl (KeyError, s1)
              | Some held \<Rightarrow>
                  Inr (s1\<lparr>py_ledger := dict_set (py_ledger s1) asset_name (held + units)\<rparr>))))"

text \<open>
  \<^verbatim>\<open>
    def transaction_margin(self, asset_name, units):
        amount = current_prices[asset_name] * units
        used_margin = amount * self.initial_margin
        self._borrowed_cash += amount * (1-self.initial_margin)
        self._cash -= used_margin
        self._used_margin += used_margin
        self.ledger[asset_name] += units
  \<close>
\<close>

definition transaction_margin ::
  "(string \<rightharpoonup> real) \<Rightarrow> PyPortfolio \<Rightarrow> string \<Rightarrow> real
     \<Rightarrow> (error \<times> PyPortfolio) + PyPortfolio" where
  "transaction_margin current_prices self asset_name units =
     (case current_prices asset_name of
        None \<Rightarrow> Inl (KeyError, self)
      | Some price \<Rightarrow>
         (let amount = price * units;
              used_margin = amount * py_initial_margin self;
              s1 = self\<lparr>py_borrowed_cash :=
                          py_borrowed_cash self + amount * (1 - py_initial_margin self)\<rparr>;
              s2 = s1\<lparr>py_cash := py_cash s1 - used_margin\<rparr>;
              s3 = s2\<lparr>py_used_margin := py_used_margin s2 + used_margin\<rparr>
          in (case map_of (py_ledger s3) asset_name of
                None \<Rightarrow> Inl (KeyError, s3)
              | Some held \<Rightarrow>
                  Inr (s3\<lparr>py_ledger := dict_set (py_ledger s3) asset_name (held + units)\<rparr>))))"

text \<open>
  \<^verbatim>\<open>
    def order(self, asset_name: str, units: float):
        if self.type == "cash":
            self.transaction_cash(asset_name, units)
        elif self.type == "margin":
            self.transaction_margin(asset_name, units)
        return self
  \<close>
\<close>

definition order ::
  "(string \<rightharpoonup> real) \<Rightarrow> PyPortfolio \<Rightarrow> string \<Rightarrow> real
     \<Rightarrow> (error \<times> PyPortfolio) + PyPortfolio" where
  "order current_prices self asset_name units =
     (if py_type self = ''cash'' then transaction_cash current_prices self asset_name units
      else if py_type self = ''margin'' then
        transaction_margin current_prices self asset_name units
      else Inr self)"

text \<open>
  \<^verbatim>\<open>
    @property
    def assets_value(self):
        return sum((current_prices[k]*v for k, v in self.ledger.items()))

    @property
    def equity(self):
        return self._cash + self.assets_value - self._borrowed_cash
  \<close>
\<close>

fun assets_value :: "(string \<rightharpoonup> real) \<Rightarrow> (string \<times> real) list \<Rightarrow> error + real" where
  "assets_value current_prices [] = Inr 0"
| "assets_value current_prices ((k, v) # items) =
     (case current_prices k of
        None \<Rightarrow> Inl KeyError
      | Some price \<Rightarrow>
         (case assets_value current_prices items of
            Inl e \<Rightarrow> Inl e
          | Inr rest \<Rightarrow> Inr (price * v + rest)))"

definition py_equity :: "(string \<rightharpoonup> real) \<Rightarrow> PyPortfolio \<Rightarrow> error + real" where
  "py_equity current_prices self =
     (case assets_value current_prices (py_ledger self) of
        Inl e \<Rightarrow> Inl e
      | Inr value \<Rightarrow> Inr (py_cash self + value - py_borrowed_cash self))"

text \<open>
  The spec's leveraged scenario on the prototype: one asset X at price 10, a margin
  account with initial cash 1,000,000 and initial margin 0.2.
\<close>

definition pricesX :: "string \<rightharpoonup> real" where
  "pricesX = [''X'' \<mapsto> 10]"

definition marginAccount :: PyPortfolio where
  "marginAccount = PyPortfolio_init [''X''] 1000000 ''margin'' 0.2"

section \<open>Auxiliary facts about lists\<close>

lemma sum_list_update_real:
  fixes xs :: "real list"
  shows "k < length xs \<Longrightarrow> sum_list (xs[k := v]) = sum_list xs - xs ! k + v"
proof (induction xs arbitrary: k)
  case Nil
  then show ?case by simp
next
  case (Cons a xs)
  then show ?case by (cases k) simp_all
qed

lemma positionValue_update:
  fixes xs ys :: "real list"
  assumes "k < length xs" and "length xs = length ys"
  shows "sum_list (map2 (*) (xs[k := v]) ys)
           = sum_list (map2 (*) xs ys) - xs ! k * ys ! k + v * ys ! k"
  using assms
proof (induction xs arbitrary: k ys)
  case Nil
  then show ?case by simp
next
  case (Cons a xs)
  then obtain b ys' where ys: "ys = b # ys'" by (cases ys) auto
  with Cons show ?case by (cases k) simp_all
qed

lemma equity_transact:
  assumes "k < length (ledger p)" and "k < length (borrowedMargin p)"
    and "length (ledger p) = length (currentPrices p)"
  shows "equity (transact p k price units c)
           = equity p - c + units * (currentPrices p ! k - price)"
  using assms
  by (simp add: equity_def transact_def Let_def sum_list_update_real positionValue_update
      algebra_simps)

lemma transact_frame [simp]:
  "length (ledger (transact p k price units c)) = length (ledger p)"
  "length (borrowedMargin (transact p k price units c)) = length (borrowedMargin p)"
  "currentPrices (transact p k price units c) = currentPrices p"
  "meanEntryPrices (transact p k price units c) = meanEntryPrices p"
  "requiredMargin (transact p k price units c) = requiredMargin p"
  "assets (transact p k price units c) = assets p"
  by (simp_all add: transact_def Let_def)

lemma equity_meanEntryPrices_update [simp]:
  "equity (p\<lparr>meanEntryPrices := m\<rparr>) = equity p"
  by (simp add: equity_def)

text \<open>
  Closing units of a position: the closed fraction of the position is the units closed,
  and a close at price \<open>price\<close> changes the equity by the units closed times the distance
  of \<open>price\<close> from the current price, less the cost.
\<close>

lemma closedFraction_units:
  fixes c u :: real
  assumes "u \<noteq> 0" and "\<not> (c = 0 \<or> sgn u = sgn c)"
  shows "\<bar>- u\<bar> / \<bar>c\<bar> * c = - u"
proof -
  from assms have "(u < 0 \<and> 0 < c) \<or> (0 < u \<and> c < 0)"
    by (cases "u < 0"; cases "c < 0") (auto simp: sgn_real_def split: if_splits)
  then show ?thesis by auto
qed

lemma closeUnits_fields:
  "cash (closeUnits p k price u c)
     = cash p + (price - meanEntryPrices p ! k) * u
         + \<bar>u\<bar> / \<bar>ledger p ! k\<bar> * fundedAtEntry p k - c"
  "ledger (closeUnits p k price u c) = (ledger p)[k := ledger p ! k - u]"
  "borrowedMargin (closeUnits p k price u c)
     = (borrowedMargin p)[k := borrowedMargin p ! k
                                - \<bar>u\<bar> / \<bar>ledger p ! k\<bar> * borrowedMargin p ! k]"
  "usedMargin (closeUnits p k price u c)
     = usedMargin p - \<bar>u\<bar> / \<bar>ledger p ! k\<bar> * \<bar>fundedAtEntry p k\<bar>"
  "currentPrices (closeUnits p k price u c) = currentPrices p"
  "meanEntryPrices (closeUnits p k price u c) = meanEntryPrices p"
  "requiredMargin (closeUnits p k price u c) = requiredMargin p"
  "assets (closeUnits p k price u c) = assets p"
  "assetIdx (closeUnits p k price u c) = assetIdx p"
  by (simp_all add: closeUnits_def Let_def)

lemma equity_closeUnits:
  assumes k: "k < length (ledger p)" "k < length (borrowedMargin p)"
    and l: "length (ledger p) = length (currentPrices p)"
    and f: "\<bar>u\<bar> / \<bar>ledger p ! k\<bar> * ledger p ! k = u"
  shows "equity (closeUnits p k price u c)
           = equity p - c + u * (price - currentPrices p ! k)"
proof -
  define f where "f = \<bar>u\<bar> / \<bar>ledger p ! k\<bar>"
  define L where "L = ledger p ! k"
  define M where "M = meanEntryPrices p ! k"
  define B where "B = borrowedMargin p ! k"
  define Q where "Q = currentPrices p ! k"
  have fl: "f * L = u"
    using f by (simp add: f_def L_def)
  have "f * (L * M - B) = u * M - f * B"
    using fl by (simp add: algebra_simps)
  then have c: "cash (closeUnits p k price u c) = cash p + (price - M) * u + (u * M - f * B) - c"
    by (simp add: closeUnits_fields fundedAtEntry_def f_def L_def M_def B_def)
  have v: "sum_list (map2 (*) (ledger (closeUnits p k price u c))
                      (currentPrices (closeUnits p k price u c)))
             = sum_list (map2 (*) (ledger p) (currentPrices p)) - L * Q + (L - u) * Q"
    using k l by (simp add: closeUnits_fields positionValue_update L_def Q_def)
  have b: "sum_list (borrowedMargin (closeUnits p k price u c))
             = sum_list (borrowedMargin p) - B + (B - f * B)"
    using k by (simp add: closeUnits_fields sum_list_update_real B_def f_def)
  show ?thesis
    unfolding equity_def c v b Q_def [symmetric]
    by (simp add: algebra_simps)
qed

lemma closeUnits_lengths [simp]:
  "length (ledger (closeUnits p k price u c)) = length (ledger p)"
  "length (borrowedMargin (closeUnits p k price u c)) = length (borrowedMargin p)"
  by (simp_all add: closeUnits_fields)

section \<open>The transaction on the scenarios of the spec\<close>

text \<open>
  The transaction on the portfolios of section 8 of the spec: the
  cash account (buy 1000 at 10, the price moves to 11, sell 1000 at 11), the leveraged
  account (buy 1000 at 10 with margin fraction 0.2, and the close at 10 that brings
  borrowed and used margin back to 0), and on \<open>longPortfolio\<close>, the book after buying 10
  units at 8 with margin fraction 0.25, a partial close and a flip at price 10.
\<close>

lemma longPortfolio_is_reached:
  "handleTransaction ((scenarioPortfolio 0.25)\<lparr>currentPrices := [8]\<rparr>) 0 8 10 0
     = Inr (longPortfolio\<lparr>currentPrices := [8]\<rparr>)"
  by (simp add: handleTransaction_def transact_def validIdx_def Let_def
      scenarioPortfolio_def longPortfolio_def)

lemma partial_close_of_longPortfolio:
  "handleTransaction longPortfolio 0 10 (- 5) 0
     = Inr (longPortfolio\<lparr>cash := 1000000, borrowedMargin := [30], usedMargin := 10,
              ledger := [5]\<rparr>)"
  by (simp add: handleTransaction_def closeUnits_def transact_def fundedAtEntry_def
      validIdx_def Let_def longPortfolio_def)

lemma flip_of_longPortfolio:
  "handleTransaction longPortfolio 0 10 (- 30) 0
     = Inr (longPortfolio\<lparr>cash := 1000070, borrowedMargin := [- 150], usedMargin := 50,
              ledger := [- 20], meanEntryPrices := [10]\<rparr>)"
  by (simp add: handleTransaction_def closeUnits_def transact_def fundedAtEntry_def
      validIdx_def Let_def longPortfolio_def)

lemma cash_account_scenario:
  "handleTransaction (scenarioPortfolio 1) 0 10 1000 0
     = Inr ((scenarioPortfolio 1)\<lparr>cash := 990000, borrowedMargin := [0], usedMargin := 10000,
              ledger := [1000], meanEntryPrices := [10]\<rparr>)"
  "equity ((scenarioPortfolio 1)\<lparr>cash := 990000, borrowedMargin := [0], usedMargin := 10000,
              ledger := [1000], meanEntryPrices := [10], currentPrices := [11]\<rparr>) = 1001000"
  "handleTransaction ((scenarioPortfolio 1)\<lparr>cash := 990000, borrowedMargin := [0],
              usedMargin := 10000, ledger := [1000], meanEntryPrices := [10],
              currentPrices := [11]\<rparr>) 0 11 (- 1000) 0
     = Inr ((scenarioPortfolio 1)\<lparr>cash := 1001000, borrowedMargin := [0], usedMargin := 0,
              ledger := [0], meanEntryPrices := [10], currentPrices := [11]\<rparr>)"
  by (simp_all add: handleTransaction_def closeUnits_def transact_def fundedAtEntry_def
      validIdx_def Let_def scenarioPortfolio_def equity_def)

lemma leveraged_scenario:
  "handleTransaction (scenarioPortfolio 0.2) 0 10 1000 0
     = Inr ((scenarioPortfolio 0.2)\<lparr>cash := 998000, borrowedMargin := [8000],
              usedMargin := 2000, ledger := [1000], meanEntryPrices := [10]\<rparr>)"
  "equity ((scenarioPortfolio 0.2)\<lparr>cash := 998000, borrowedMargin := [8000],
              usedMargin := 2000, ledger := [1000], meanEntryPrices := [10]\<rparr>) = 1000000"
  by (simp_all add: handleTransaction_def closeUnits_def transact_def fundedAtEntry_def
      validIdx_def Let_def scenarioPortfolio_def equity_def)

lemma fundedAtEntry_of_block:
  assumes "borrowedMargin p ! k = ledger p ! k * meanEntryPrices p ! k * (1 - requiredMargin p)"
  shows "fundedAtEntry p k = ledger p ! k * meanEntryPrices p ! k * requiredMargin p"
  using assms by (simp add: fundedAtEntry_def algebra_simps)

lemma leveraged_round_trip_margin:
  "handleTransaction ((scenarioPortfolio 0.2)\<lparr>cash := 998000, borrowedMargin := [8000],
              usedMargin := 2000, ledger := [1000], meanEntryPrices := [10]\<rparr>) 0 10 (- 1000) 0
     = Inr ((scenarioPortfolio 0.2)\<lparr>cash := 1000000, borrowedMargin := [0],
              usedMargin := 0, ledger := [0], meanEntryPrices := [10]\<rparr>)"
  by (simp add: handleTransaction_def closeUnits_def transact_def fundedAtEntry_def
      validIdx_def Let_def scenarioPortfolio_def)

section \<open>Value conservation\<close>

text \<open>
  Claim C1.  For every well-formed portfolio and every asset index of its asset set, a
  transaction with zero transaction cost at the portfolio's own current price for that
  asset returns normally and leaves the equity unchanged, whatever the signed number of
  units: the trade may open a position, increase it, close it partly or fully, or flip
  its sign.
\<close>

theorem handleTransaction_conserves_equity:
  assumes "wellFormed p" and "0 \<le> i" and "nat i < nAssets p"
  shows "\<exists>p'. handleTransaction p i (currentPrices p ! nat i) units 0 = Inr p'
              \<and> equity p' = equity p"
proof -
  let ?k = "nat i" and ?q = "currentPrices p ! nat i"
  from assms have v: "validIdx p i"
    and k: "?k < length (ledger p)" "?k < length (borrowedMargin p)"
    and l: "length (ledger p) = length (currentPrices p)"
    by (simp_all add: wellFormed_def validIdx_def)
  have block: "equity (transact p ?k ?q u 0) = equity p" for u
    using k l by (simp add: equity_transact)
  consider (zero) "units = 0"
    | (grow) "units \<noteq> 0" "ledger p ! ?k = 0 \<or> sgn units = sgn (ledger p ! ?k)"
    | (reduce) "units \<noteq> 0" "\<not> (ledger p ! ?k = 0 \<or> sgn units = sgn (ledger p ! ?k))"
        "\<bar>units\<bar> \<le> \<bar>ledger p ! ?k\<bar>"
    | (flip) "units \<noteq> 0" "\<not> (ledger p ! ?k = 0 \<or> sgn units = sgn (ledger p ! ?k))"
        "\<not> \<bar>units\<bar> \<le> \<bar>ledger p ! ?k\<bar>"
    by blast
  then show ?thesis
  proof cases
    case zero
    with v block show ?thesis
      by (simp add: handleTransaction_def Let_def)
  next
    case grow
    with v block show ?thesis
      by (simp add: handleTransaction_def Let_def)
  next
    case reduce
    have "equity (closeUnits p ?k ?q (- units) 0) = equity p"
      using k l closedFraction_units [OF reduce(1,2)]
      by (simp add: equity_closeUnits)
    with v reduce show ?thesis
      by (simp add: handleTransaction_def Let_def)
  next
    case flip
    let ?closed = "closeUnits p ?k ?q (ledger p ! ?k) 0"
    from flip(2) have "\<bar>ledger p ! ?k\<bar> / \<bar>ledger p ! ?k\<bar> * ledger p ! ?k = ledger p ! ?k"
      by simp
    then have c: "equity ?closed = equity p"
      using k l by (simp add: equity_closeUnits)
    have "equity (transact ?closed ?k ?q (units + ledger p ! ?k) 0) = equity ?closed"
      using k l by (simp add: equity_transact closeUnits_fields(5))
    with c v flip show ?thesis
      by (simp add: handleTransaction_def Let_def)
  qed
qed

text \<open>
  The theorem at a sign flip: the portfolio is long 10 units and sells 30 at the current
  price 10; the equity stays at 1,000,020.
\<close>

theorem handleTransaction_conserves_equity_witness:
  "wellFormed longPortfolio \<and> (0::int) \<le> 0 \<and> nat 0 < nAssets longPortfolio \<and>
   (\<exists>p'. handleTransaction longPortfolio 0 (currentPrices longPortfolio ! nat 0) (- 30) 0
            = Inr p' \<and> equity p' = equity longPortfolio) \<and>
   equity longPortfolio = 1000020"
proof -
  have w: "wellFormed longPortfolio"
    by (simp add: wellFormed_def nAssets_def longPortfolio_def)
  have n: "nat 0 < nAssets longPortfolio"
    by (simp add: nAssets_def longPortfolio_def)
  have e: "equity longPortfolio = 1000020"
    by (simp add: equity_def longPortfolio_def)
  from handleTransaction_conserves_equity [OF w _ n, of "- 30"] w n e
  show ?thesis by simp
qed

section \<open>Round trip\<close>

text \<open>
  A flat asset has no margin borrowed for it: transactions keep it so, since a full close
  releases all of the borrowed margin and every other trade leaves a position.
\<close>

lemma same_sign_sum_nonzero:
  fixes u c :: real
  assumes "u \<noteq> 0" and "c = 0 \<or> sgn u = sgn c"
  shows "c + u \<noteq> 0"
  using assms by (cases "u < 0"; cases "c < 0") (auto simp: sgn_real_def split: if_splits)

lemma flat_asset_owes_nothing:
  assumes v: "validIdx p i"
    and f: "ledger p ! nat i = 0 \<longrightarrow> borrowedMargin p ! nat i = 0"
    and h: "handleTransaction p i price units cost = Inr p'"
  shows "ledger p' ! nat i = 0 \<longrightarrow> borrowedMargin p' ! nat i = 0"
proof -
  let ?k = "nat i"
  from v have k: "?k < length (ledger p)" "?k < length (borrowedMargin p)"
    by (simp_all add: validIdx_def)
  consider (zero) "units = 0"
    | (grow) "units \<noteq> 0" "ledger p ! ?k = 0 \<or> sgn units = sgn (ledger p ! ?k)"
    | (reduce) "units \<noteq> 0" "\<not> (ledger p ! ?k = 0 \<or> sgn units = sgn (ledger p ! ?k))"
        "\<bar>units\<bar> \<le> \<bar>ledger p ! ?k\<bar>"
    | (flip) "units \<noteq> 0" "\<not> (ledger p ! ?k = 0 \<or> sgn units = sgn (ledger p ! ?k))"
        "\<not> \<bar>units\<bar> \<le> \<bar>ledger p ! ?k\<bar>"
    by blast
  then show ?thesis
  proof cases
    case zero
    with v h k f show ?thesis
      by (auto simp: handleTransaction_def transact_def Let_def)
  next
    case grow
    from same_sign_sum_nonzero [OF grow] v h k grow show ?thesis
      by (auto simp: handleTransaction_def transact_def Let_def)
  next
    case reduce
    from reduce v h have p': "p' = closeUnits p ?k price (- units) cost"
      by (simp add: handleTransaction_def Let_def)
    show ?thesis
    proof
      assume "ledger p' ! ?k = 0"
      with k have "units = - (ledger p ! ?k)"
        by (simp add: p' closeUnits_fields)
      with reduce(2) k show "borrowedMargin p' ! ?k = 0"
        by (simp add: p' closeUnits_fields)
    qed
  next
    case flip
    from flip v h have p': "ledger p' ! ?k = units + ledger p ! ?k"
      using k by (auto simp: handleTransaction_def transact_def Let_def closeUnits_fields)
    from flip(3) have "units + ledger p ! ?k \<noteq> 0" by auto
    with p' show ?thesis by simp
  qed
qed



section \<open>The observations of the periodic generator\<close>

text \<open>
  One pass of the loop of \<^verbatim>\<open>getData\<close> from counter \<open>i\<close>: every entry from \<open>i\<close> on is
  written from the abscissa \<open>x\<close> before the pass, and that abscissa is advanced by \<open>dX\<close>.
\<close>

lemma getData_loop_spec:
  assumes "length (synth_mu s) = synth_nAssets s" "length (synth_amp s) = synth_nAssets s"
    "length (synth_x s) = synth_nAssets s" "length (synth_freq s) = synth_nAssets s"
    "length (synth_currentData s) = synth_nAssets s"
  shows "\<exists>s'. getData_loop i s = Inr s'
     \<and> synth_freq s' = synth_freq s \<and> synth_mu s' = synth_mu s \<and> synth_amp s' = synth_amp s
     \<and> synth_dX s' = synth_dX s \<and> synth_nAssets s' = synth_nAssets s
     \<and> synth_initPhase s' = synth_initPhase s \<and> synth_assets s' = synth_assets s
     \<and> length (synth_x s') = synth_nAssets s
     \<and> length (synth_currentData s') = synth_nAssets s
     \<and> (\<forall>j < synth_nAssets s. synth_x s' ! j
            = (if i \<le> j then synth_x s ! j + synth_dX s else synth_x s ! j))
     \<and> (\<forall>j < synth_nAssets s. synth_currentData s' ! j
            = (if i \<le> j then synth_mu s ! j
                  + synth_amp s ! j * sin (PI2 * synth_x s ! j * synth_freq s ! j)
               else synth_currentData s ! j))"
  using assms
proof (induction i s rule: getData_loop.induct)
  case (1 i s)
  show ?case
  proof (cases "i < synth_nAssets s")
    case False
    with "1.prems" show ?thesis by (simp add: getData_loop.simps)
  next
    case True
    let ?s1 = "s\<lparr>synth_currentData := (synth_currentData s)
                     [i := synth_mu s ! i
                           + synth_amp s ! i * sin (PI2 * synth_x s ! i * synth_freq s ! i)],
                  synth_x := (synth_x s)[i := synth_x s ! i + synth_dX s]\<rparr>"
    from True "1.prems" have ok: "i < length (synth_mu s) \<and> i < length (synth_amp s) \<and> i < length (synth_x s)
           \<and> i < length (synth_freq s) \<and> i < length (synth_currentData s)" by simp
    have step: "getData_loop i s = getData_loop (Suc i) ?s1"
      using True ok by (subst getData_loop.simps) simp
    from "1.IH" [OF True ok] "1.prems" obtain s' where
      r: "getData_loop (Suc i) ?s1 = Inr s'"
      and f: "synth_freq s' = synth_freq s" "synth_mu s' = synth_mu s" "synth_amp s' = synth_amp s"
        "synth_dX s' = synth_dX s" "synth_nAssets s' = synth_nAssets s"
       "synth_initPhase s' = synth_initPhase s" "synth_assets s' = synth_assets s"
       "length (synth_x s') = synth_nAssets s" "length (synth_currentData s') = synth_nAssets s"
      and x: "\<forall>j < synth_nAssets s. synth_x s' ! j
            = (if Suc i \<le> j then synth_x ?s1 ! j + synth_dX s else synth_x ?s1 ! j)"
      and d: "\<forall>j < synth_nAssets s. synth_currentData s' ! j
            = (if Suc i \<le> j then synth_mu s ! j
                  + synth_amp s ! j * sin (PI2 * synth_x ?s1 ! j * synth_freq s ! j)
               else synth_currentData ?s1 ! j)"
      by auto
    have x': "\<forall>j < synth_nAssets s. synth_x s' ! j
            = (if i \<le> j then synth_x s ! j + synth_dX s else synth_x s ! j)"
    proof (intro allI impI)
      fix j assume j: "j < synth_nAssets s"
      consider "j < i" | "j = i" | "Suc i \<le> j" by linarith
      then show "synth_x s' ! j
            = (if i \<le> j then synth_x s ! j + synth_dX s else synth_x s ! j)"
        using x j "1.prems" by cases (simp_all add: nth_list_update)
    qed
    have d': "\<forall>j < synth_nAssets s. synth_currentData s' ! j
            = (if i \<le> j then synth_mu s ! j
                  + synth_amp s ! j * sin (PI2 * synth_x s ! j * synth_freq s ! j)
               else synth_currentData s ! j)"
    proof (intro allI impI)
      fix j assume j: "j < synth_nAssets s"
      consider "j < i" | "j = i" | "Suc i \<le> j" by linarith
      then show "synth_currentData s' ! j
            = (if i \<le> j then synth_mu s ! j
                  + synth_amp s ! j * sin (PI2 * synth_x s ! j * synth_freq s ! j)
               else synth_currentData s ! j)"
        using d j "1.prems" by cases (simp_all add: nth_list_update)
    qed
    from step r f x' d' show ?thesis by simp
  qed
qed

lemma getData_spec:
  assumes "synthReady s"
  shows "\<exists>s'. getData s
            = Inr (map (\<lambda>j. synth_mu s ! j
                         + synth_amp s ! j * sin (PI2 * synth_x s ! j * synth_freq s ! j))
                     [0..<synth_nAssets s], s')
     \<and> synth_freq s' = synth_freq s \<and> synth_mu s' = synth_mu s \<and> synth_amp s' = synth_amp s
     \<and> synth_dX s' = synth_dX s \<and> synth_nAssets s' = synth_nAssets s
     \<and> synth_x s' = map (\<lambda>v. v + synth_dX s) (synth_x s)
     \<and> synthReady s'"
proof -
  from assms have a: "length (synth_mu s) = synth_nAssets s" "length (synth_amp s) = synth_nAssets s"
    "length (synth_x s) = synth_nAssets s" "length (synth_freq s) = synth_nAssets s"
    "length (synth_currentData s) = synth_nAssets s"
    by (simp_all add: synthReady_def)
  from getData_loop_spec [OF a, of 0] obtain s' where
    r: "getData_loop 0 s = Inr s'"
    and f: "synth_freq s' = synth_freq s" "synth_mu s' = synth_mu s" "synth_amp s' = synth_amp s"
      "synth_dX s' = synth_dX s" "synth_nAssets s' = synth_nAssets s"
      "length (synth_x s') = synth_nAssets s" "length (synth_currentData s') = synth_nAssets s"
    and x: "\<forall>j < synth_nAssets s. synth_x s' ! j = synth_x s ! j + synth_dX s"
    and d: "\<forall>j < synth_nAssets s. synth_currentData s' ! j
              = synth_mu s ! j + synth_amp s ! j * sin (PI2 * synth_x s ! j * synth_freq s ! j)"
    by auto
  have x': "synth_x s' = map (\<lambda>v. v + synth_dX s) (synth_x s)"
    using f x a by (intro nth_equalityI) simp_all
  have d': "synth_currentData s' = map (\<lambda>j. synth_mu s ! j
                + synth_amp s ! j * sin (PI2 * synth_x s ! j * synth_freq s ! j))
              [0..<synth_nAssets s]"
    using f d by (intro nth_equalityI) simp_all
  from r f x' d' a show ?thesis
    by (simp add: getData_def synthReady_def)
qed

lemma getData_times_spec:
  assumes "synthReady s"
  shows "\<exists>s'. getData_times t s = Inr s'
     \<and> synth_freq s' = synth_freq s \<and> synth_mu s' = synth_mu s \<and> synth_amp s' = synth_amp s
     \<and> synth_dX s' = synth_dX s \<and> synth_nAssets s' = synth_nAssets s
     \<and> synth_x s' = map (\<lambda>v. v + real t * synth_dX s) (synth_x s)
     \<and> synthReady s'"
proof (induction t)
  case 0
  with assms show ?case by simp
next
  case (Suc t)
  then obtain s1 where
    r: "getData_times t s = Inr s1"
    and f: "synth_freq s1 = synth_freq s" "synth_mu s1 = synth_mu s" "synth_amp s1 = synth_amp s"
      "synth_dX s1 = synth_dX s" "synth_nAssets s1 = synth_nAssets s"
    and x: "synth_x s1 = map (\<lambda>v. v + real t * synth_dX s) (synth_x s)"
    and rd: "synthReady s1"
    by auto
  from getData_spec [OF rd] obtain obs s2 where
    g: "getData s1 = Inr (obs, s2)"
    and f2: "synth_freq s2 = synth_freq s1" "synth_mu s2 = synth_mu s1" "synth_amp s2 = synth_amp s1"
      "synth_dX s2 = synth_dX s1" "synth_nAssets s2 = synth_nAssets s1"
    and x2: "synth_x s2 = map (\<lambda>v. v + synth_dX s1) (synth_x s1)"
    and rd2: "synthReady s2"
    by auto
  have "synth_x s2 = map (\<lambda>v. v + real (Suc t) * synth_dX s) (synth_x s)"
    using x x2 f by (simp add: algebra_simps)
  with r g f f2 rd2 show ?case by simp
qed

lemma length_pushSineAssets: "length (pushSineAssets i n as) = length as + n"
  by (induction i n as rule: pushSineAssets.induct) simp_all

lemma synthReady_initParams:
  assumes "length mu' = length freq'" and "length amp' = length freq'"
    and "length phase' = length freq'"
  shows "synthReady (initParams newSynth freq' mu' amp' phase' dX')"
    and "synth_nAssets (initParams newSynth freq' mu' amp' phase' dX') = length freq'"
  using assms
  by (simp_all add: synthReady_def initParams_def newSynth_def Let_def length_pushSineAssets)

text \<open>
  Claim C3, as amended.  For a generator built from vectors of one length, the
  observation returned by the call of \<^verbatim>\<open>getData\<close> that follows \<open>t\<close> earlier calls is, for
  every asset \<open>i\<close>, \<open>mu i + amp i * sin (PI2 * (phase i + t * dX) * freq i)\<close>: the phase is an
  offset of the abscissa and is multiplied by the frequency like the elapsed steps, and
  the first call is the one with \<open>t = 0\<close>.
\<close>

theorem Synth_getData_closed_form:
  assumes "length mu' = length freq'" and "length amp' = length freq'"
    and "length phase' = length freq'"
  shows "\<exists>s obs s'.
           getData_times t (initParams newSynth freq' mu' amp' phase' dX') = Inr s
         \<and> getData s = Inr (obs, s')
         \<and> obs = map (\<lambda>i. mu' ! i
                        + amp' ! i * sin (PI2 * (phase' ! i + real t * dX') * freq' ! i))
                   [0..<length freq']"
proof -
  let ?s0 = "initParams newSynth freq' mu' amp' phase' dX'"
  have p: "synth_freq ?s0 = freq'" "synth_mu ?s0 = mu'" "synth_amp ?s0 = amp'"
    "synth_x ?s0 = phase'" "synth_dX ?s0 = dX'"
    by (simp_all add: initParams_def Let_def)
  note rd = synthReady_initParams [OF assms, of dX']
  from getData_times_spec [OF rd(1), of t] obtain s where
    r: "getData_times t ?s0 = Inr s"
    and f: "synth_freq s = freq'" "synth_mu s = mu'" "synth_amp s = amp'"
      "synth_nAssets s = length freq'"
    and x: "synth_x s = map (\<lambda>v. v + real t * dX') phase'"
    and rds: "synthReady s"
    using p rd(2) by auto
  from getData_spec [OF rds] obtain s' where
    g: "getData s = Inr (map (\<lambda>j. synth_mu s ! j
                         + synth_amp s ! j * sin (PI2 * synth_x s ! j * synth_freq s ! j))
                     [0..<synth_nAssets s], s')"
    by auto
  have "map (\<lambda>j. synth_mu s ! j
                 + synth_amp s ! j * sin (PI2 * synth_x s ! j * synth_freq s ! j))
             [0..<synth_nAssets s]
        = map (\<lambda>i. mu' ! i + amp' ! i * sin (PI2 * (phase' ! i + real t * dX') * freq' ! i))
             [0..<length freq']"
    using f x assms by simp
  with r g show ?thesis by simp
qed

text \<open>
  The theorem at one wave of frequency 2 and phase 1/16 with \<open>dX = 1/100\<close>, for the call
  after three earlier ones.
\<close>

theorem Synth_getData_closed_form_witness:
  "length [0::real] = length [2::real] \<and> length [1::real] = length [2::real]
   \<and> length [1 / 16 :: real] = length [2::real]
   \<and> (\<exists>s obs s'.
           getData_times 3 (initParams newSynth [2] [0] [1] [1 / 16] (1 / 100)) = Inr s
         \<and> getData s = Inr (obs, s')
         \<and> obs = [0 + 1 * sin (PI2 * (1 / 16 + 3 * (1 / 100)) * 2)])"
  using Synth_getData_closed_form [of "[0]" "[2]" "[1]" "[1 / 16]" 3 "1 / 100"]
  by simp

text \<open>
  Claim C3 as it is written, \<open>mu i + amp i * sin (2\<pi> * (phase i + t * freq i * dX))\<close>, read
  with the source's constant \<open>PI2\<close> for \<open>2\<pi>\<close>, fails on that generator: the first
  observation is \<open>sin (PI2 * (1/16) * 2)\<close>, which is neither the claimed value for \<open>t = 0\<close>
  nor the one for \<open>t = 1\<close>.
\<close>

theorem Synth_phase_counterexample:
  "map_sum id fst (getData (initParams newSynth [2] [0] [1] [1 / 16] (1 / 100)))
     = Inr [sin (PI2 * (1 / 16) * 2)]
   \<and> sin (PI2 * (1 / 16) * 2) \<noteq> 0 + 1 * sin (PI2 * (1 / 16 + 0 * 2 * (1 / 100)))
   \<and> sin (PI2 * (1 / 16) * 2) \<noteq> 0 + 1 * sin (PI2 * (1 / 16 + 1 * 2 * (1 / 100)))"
proof -
  have g: "map_sum id fst (getData (initParams newSynth [2] [0] [1] [1 / 16] (1 / 100)))
     = Inr [sin (PI2 * (1 / 16) * 2)]"
    by (simp add: getData_def getData_loop.simps initParams_def newSynth_def Let_def)
  have a: "sin (PI2 / 16) < sin (PI2 / 8)"
    using pi_ge_two by (intro sin_monotone_2pi) (simp_all add: PI2_def)
  have b: "sin (PI2 * (33 / 400)) < sin (PI2 / 8)"
    using pi_ge_two by (intro sin_monotone_2pi) (simp_all add: PI2_def)
  from g a b show ?thesis by (simp add: algebra_simps)
qed

section \<open>Construction of the periodic generator\<close>

text \<open>
  What the two constructors check.  The typed constructor rejects vectors of different
  lengths; the configuration constructor rejects a configuration without
  \<^verbatim>\<open>generator_params\<close> and parameters without one of the five keys.
\<close>

lemma Synth_params_mismatch:
  "\<not> (length freq' = length mu' \<and> length mu' = length amp' \<and> length amp' = length phase')
   \<Longrightarrow> Synth_params freq' mu' amp' phase' dX' = Inl LengthError"
  by (simp add: Synth_params_def)

lemma requireKeys_all: "requireKeys params keys \<longleftrightarrow> (\<forall>k \<in> set keys. find_key params k \<noteq> None)"
  by (induction keys) auto

lemma Synth_Config_missing_key:
  assumes "key \<in> set [''freq'', ''mu'', ''amp'', ''phase'', ''dX'']"
    and "find_key config ''generator_params'' = Some (AnyConfig params)"
    and "find_key params key = None"
  shows "Synth_Config config = Inl ConfigError"
proof -
  from assms(1,3) have "\<not> requireKeys params [''freq'', ''mu'', ''amp'', ''phase'', ''dX'']"
    unfolding requireKeys_all by blast
  with assms(2) show ?thesis
    by (simp add: Synth_Config_def subscript_key_def any_cast_Config_def)
qed

lemma Synth_Config_missing_generator_params:
  "find_key config ''generator_params'' = None \<Longrightarrow> Synth_Config config = Inl ConfigError"
  by (simp add: Synth_Config_def)

text \<open>
  Claim C5 at a configuration whose \<^verbatim>\<open>freq\<close> has two entries and whose \<^verbatim>\<open>mu\<close>, \<^verbatim>\<open>amp\<close> and
  \<^verbatim>\<open>phase\<close> have one: the configuration constructor returns a generator with
  \<^verbatim>\<open>nAssets = 2\<close> and a one-entry \<^verbatim>\<open>mu\<close>, whose first \<^verbatim>\<open>getData\<close> reads \<^verbatim>\<open>mu[1]\<close> outside the
  vector, while the typed constructor throws \<^verbatim>\<open>std::length_error\<close> on the same vectors.
\<close>

theorem Synth_Config_accepts_mismatched_lengths:
  "Synth_Config
     [(''generator_params'',
       AnyConfig [(''freq'', AnyVector [1, 2]), (''mu'', AnyVector [1]),
                  (''amp'', AnyVector [1]), (''phase'', AnyVector [0]),
                  (''dX'', AnyDouble 0.01)])]
     = Inr (initParams newSynth [1, 2] [1] [1] [0] 0.01)
   \<and> synth_nAssets (initParams newSynth [1, 2] [1] [1] [0] 0.01) = 2
   \<and> length (synth_mu (initParams newSynth [1, 2] [1] [1] [0] 0.01)) = 1
   \<and> getData (initParams newSynth [1, 2] [1] [1] [0] 0.01) = Inl IndexError
   \<and> Synth_params [1, 2] [1] [1] [0] 0.01 = Inl LengthError"
  by (simp add: Synth_Config_def find_key_def subscript_key_def any_cast_Config_def
      any_cast_vector_def any_cast_double_def Synth_params_def initParams_def newSynth_def
      Let_def getData_def getData_loop.simps)

section \<open>The transaction of the accounting prototype\<close>

lemma map_of_dict_set_same: "map_of (dict_set d k v) k = Some v"
  by (induction d k v rule: dict_set.induct) simp_all

lemma map_of_dict_set_other: "k' \<noteq> k \<Longrightarrow> map_of (dict_set d k v) k' = map_of d k'"
  by (induction d k v rule: dict_set.induct) simp_all

text \<open>
  Claim C2, as amended.  \<^verbatim>\<open>transaction_margin\<close> takes no transaction cost.  For an asset
  that has a current price \<open>p\<close> and a ledger entry, a transaction of signed units \<open>u\<close> with
  initial-margin fraction \<open>r\<close> decreases the cash by \<open>u * p * r\<close>, increases the borrowed cash
  (one number for the whole portfolio) by \<open>u * p * (1 - r)\<close>, increases the used margin by
  the signed amount \<open>u * p * r\<close>, which is \<open>\<bar>u * p * r\<bar>\<close> when that amount is not negative,
  and increases the asset's ledger entry by \<open>u\<close>.
\<close>

theorem transaction_margin_effect:
  assumes "current_prices asset = Some p" and "map_of (py_ledger s) asset = Some held"
  shows "\<exists>s'. transaction_margin current_prices s asset u = Inr s'
     \<and> py_cash s' = py_cash s - u * p * py_initial_margin s
     \<and> py_borrowed_cash s' = py_borrowed_cash s + u * p * (1 - py_initial_margin s)
     \<and> py_used_margin s' = py_used_margin s + u * p * py_initial_margin s
     \<and> (0 \<le> u * p * py_initial_margin s
          \<longrightarrow> py_used_margin s' = py_used_margin s + \<bar>u * p * py_initial_margin s\<bar>)
     \<and> map_of (py_ledger s') asset = Some (held + u)"
  using assms
  by (simp add: transaction_margin_def Let_def map_of_dict_set_same algebra_simps)

text \<open>
  The theorem on the spec's leveraged scenario: from cash 1,000,000 with margin fraction
  0.2, buying 1000 units at price 10 gives cash 998,000, borrowed cash 8,000, used margin
  2,000 and equity 1,000,000.
\<close>

theorem transaction_margin_effect_witness:
  "pricesX ''X'' = Some 10 \<and> map_of (py_ledger marginAccount) ''X'' = Some 0
   \<and> 0 \<le> (1000::real) * 10 * py_initial_margin marginAccount
   \<and> (\<exists>s'. transaction_margin pricesX marginAccount ''X'' 1000 = Inr s'
        \<and> py_cash s' = 998000 \<and> py_borrowed_cash s' = 8000 \<and> py_used_margin s' = 2000
        \<and> py_used_margin s' = py_used_margin marginAccount + \<bar>1000 * 10 * 0.2\<bar>
        \<and> map_of (py_ledger s') ''X'' = Some 1000
        \<and> py_equity pricesX s' = Inr 1000000)"
proof -
  have p: "pricesX ''X'' = Some 10"
    by (simp add: pricesX_def)
  have l: "map_of (py_ledger marginAccount) ''X'' = Some 0"
    by (simp add: marginAccount_def PyPortfolio_init_def)
  have f: "py_cash marginAccount = 1000000" "py_borrowed_cash marginAccount = 0"
    "py_used_margin marginAccount = 0" "py_initial_margin marginAccount = 0.2"
    by (simp_all add: marginAccount_def PyPortfolio_init_def)
  from transaction_margin_effect [where current_prices = pricesX and asset = "''X''"
      and p = 10 and s = marginAccount and held = 0 and u = 1000, OF p l] obtain s' where
    r: "transaction_margin pricesX marginAccount ''X'' 1000 = Inr s'"
    and c: "py_cash s' = 998000" "py_borrowed_cash s' = 8000" "py_used_margin s' = 2000"
      "map_of (py_ledger s') ''X'' = Some 1000"
    using f by auto
  from r have "py_ledger s' = [(''X'', 1000)]"
    by (auto simp: transaction_margin_def Let_def pricesX_def marginAccount_def
        PyPortfolio_init_def)
  with c have "py_equity pricesX s' = Inr 1000000"
    by (simp add: py_equity_def pricesX_def)
  with p l f r c show ?thesis by auto
qed

text \<open>
  Claim C2 as it is written, with the used margin growing by \<open>\<bar>u * p * r\<bar>\<close> for every
  transaction, fails for a sale: selling 1000 units at price 10 with margin fraction 0.2
  takes the used margin from 0 to -2,000, not to 2,000.
\<close>

theorem transaction_margin_sale_counterexample:
  "map_sum fst py_used_margin (transaction_margin pricesX marginAccount ''X'' (- 1000))
     = Inr (- 2000)
   \<and> - 2000 \<noteq> py_used_margin marginAccount + \<bar>(- 1000) * 10 * py_initial_margin marginAccount\<bar>"
  by (simp add: transaction_margin_def Let_def pricesX_def marginAccount_def
      PyPortfolio_init_def)

section \<open>End of data\<close>

text \<open>
  Advancing inside the window: \<open>n\<close> advances that do not lead past the end bound succeed
  and move the cursor by \<open>n\<close> rows, whatever the cache holds.
\<close>

lemma HDFSourceSingle_advance_spec:
  assumes "single_currentIdx h + n \<le> snd (single_boundsIdx h)"
  shows "\<exists>h'. HDFSourceSingle_advance n h = Inr h'
           \<and> single_currentIdx h' = single_currentIdx h + n
           \<and> single_boundsIdx h' = single_boundsIdx h
           \<and> single_cacheSize h' = single_cacheSize h"
  using assms
proof (induction n)
  case 0
  then show ?case by simp
next
  case (Suc n)
  then obtain h1 where
    a: "HDFSourceSingle_advance n h = Inr h1"
    and c: "single_currentIdx h1 = single_currentIdx h + n"
    and b: "single_boundsIdx h1 = single_boundsIdx h"
    and s: "single_cacheSize h1 = single_cacheSize h"
    by auto
  from Suc.prems c b have "single_currentIdx h1 \<noteq> snd (single_boundsIdx h1)"
    by simp
  with a c b s show ?case
    by (simp add: HDFSourceSingle_getData_def loadData_def Let_def)
qed

text \<open>
  Claim C6.  For the file-backed source with a non-empty window of rows from \<open>t0\<close> up to
  \<open>t1\<close>: after a reset and \<open>n\<close> advances, \<open>n\<close> at most the number of rows of the window, the
  cursor is at row \<open>t0 + n\<close> and \<^verbatim>\<open>dataEnd\<close> is true exactly when the \<open>n\<close> advances have
  reached the bound, so it is false at every step before; a reset then puts the cursor
  back to \<open>t0\<close> and \<^verbatim>\<open>dataEnd\<close> is false again.  For a generator of any class \<^verbatim>\<open>dataEnd\<close> is
  false after any number of advances.
\<close>

theorem dataEnd_over_window:
  assumes "fst (single_boundsIdx h) < snd (single_boundsIdx h)"
    and "n \<le> snd (single_boundsIdx h) - fst (single_boundsIdx h)"
  shows "\<exists>h'. HDFSourceSingle_advance n (HDFSourceSingle_reset h) = Inr h'
           \<and> single_currentIdx h' = fst (single_boundsIdx h) + n
           \<and> (dataEnd (HDFSingle h')
                 \<longleftrightarrow> n = snd (single_boundsIdx h) - fst (single_boundsIdx h))
           \<and> single_currentIdx (HDFSourceSingle_reset h') = fst (single_boundsIdx h)
           \<and> \<not> dataEnd (HDFSingle (HDFSourceSingle_reset h'))
           \<and> \<not> dataEnd (Generator c ((advance ^^ m) s))"
proof -
  let ?h0 = "HDFSourceSingle_reset h"
  have r: "single_currentIdx ?h0 = fst (single_boundsIdx h)"
    "single_boundsIdx ?h0 = single_boundsIdx h"
    by (simp_all add: HDFSourceSingle_reset_def loadData_def)
  from assms r have "single_currentIdx ?h0 + n \<le> snd (single_boundsIdx ?h0)"
    by simp
  from HDFSourceSingle_advance_spec [OF this] r obtain h' where
    a: "HDFSourceSingle_advance n ?h0 = Inr h'"
    and c: "single_currentIdx h' = fst (single_boundsIdx h) + n"
    and b: "single_boundsIdx h' = single_boundsIdx h"
    by auto
  have e: "dataEnd (HDFSingle h')
             \<longleftrightarrow> n = snd (single_boundsIdx h) - fst (single_boundsIdx h)"
    using assms c b by auto
  have r': "single_currentIdx (HDFSourceSingle_reset h') = fst (single_boundsIdx h)"
    "\<not> dataEnd (HDFSingle (HDFSourceSingle_reset h'))"
    using assms(1) b by (simp_all add: HDFSourceSingle_reset_def loadData_def)
  from a c e r' show ?thesis by simp
qed

text \<open>
  The theorem on the source with the window of rows 2 to 7: the sixth advance after a
  reset reaches the bound, the fifth does not.  The generator is the default \<open>Synth\<close>
  after three calls of \<^verbatim>\<open>getData\<close>.
\<close>

theorem dataEnd_over_window_witness:
  "fst (single_boundsIdx (windowedSingle 7)) < snd (single_boundsIdx (windowedSingle 7))
   \<and> (6::nat) \<le> snd (single_boundsIdx (windowedSingle 7))
                    - fst (single_boundsIdx (windowedSingle 7))
   \<and> (\<exists>h'. HDFSourceSingle_advance 6 (HDFSourceSingle_reset (windowedSingle 7)) = Inr h'
           \<and> single_currentIdx h' = 8
           \<and> dataEnd (HDFSingle h')
           \<and> single_currentIdx (HDFSourceSingle_reset h') = 2
           \<and> \<not> dataEnd (HDFSingle (HDFSourceSingle_reset h')))
   \<and> (\<exists>h'. HDFSourceSingle_advance 5 (HDFSourceSingle_reset (windowedSingle 7)) = Inr h'
           \<and> single_currentIdx h' = 7
           \<and> \<not> dataEnd (HDFSingle h'))
   \<and> \<not> dataEnd (Generator SynthClass ((Synth_step ^^ 3) Synth_default))"
proof -
  have a: "fst (single_boundsIdx (windowedSingle 7)) < snd (single_boundsIdx (windowedSingle 7))"
    and b: "(6::nat) \<le> snd (single_boundsIdx (windowedSingle 7))
                    - fst (single_boundsIdx (windowedSingle 7))"
    and b': "(5::nat) \<le> snd (single_boundsIdx (windowedSingle 7))
                    - fst (single_boundsIdx (windowedSingle 7))"
    and d: "single_boundsIdx (windowedSingle 7) = (2, 8)"
    by (simp_all add: windowedSingle_def)
  from dataEnd_over_window [OF a b, where c = SynthClass and s = Synth_default and m = 3] d
  have "\<exists>h'. HDFSourceSingle_advance 6 (HDFSourceSingle_reset (windowedSingle 7)) = Inr h'
           \<and> single_currentIdx h' = 8
           \<and> dataEnd (HDFSingle h')
           \<and> single_currentIdx (HDFSourceSingle_reset h') = 2
           \<and> \<not> dataEnd (HDFSingle (HDFSourceSingle_reset h'))"
    by simp
  moreover
  from dataEnd_over_window [OF a b', where c = SynthClass and s = Synth_default] d
  have "\<exists>h'. HDFSourceSingle_advance 5 (HDFSourceSingle_reset (windowedSingle 7)) = Inr h'
           \<and> single_currentIdx h' = 7
           \<and> \<not> dataEnd (HDFSingle h')"
    by auto
  ultimately show ?thesis
    using a b by simp
qed

text \<open>One more advance at the bound is the error of the contract violation.\<close>

lemma advance_past_the_bound:
  "HDFSourceSingle_advance 7 (HDFSourceSingle_reset (windowedSingle 7)) = Inl DataExhausted"
  by (simp add: eval_nat_numeral HDFSourceSingle_getData_def HDFSourceSingle_reset_def
      loadData_def windowedSingle_def Let_def)

section \<open>Reset of a composite source\<close>

lemma resetEach_eq:
  "resetEach reset k srcs = (map reset srcs, [k..<k + length srcs])"
  by (induction srcs arbitrary: k) (simp_all add: upt_rec)

text \<open>
  Claim C10.  \<^verbatim>\<open>Composite::reset\<close> calls \<^verbatim>\<open>reset\<close> on every child, once each and in order
  (the calls are those on positions \<open>0, ..., n - 1\<close>), so that every child is replaced by
  its reset state; the time stamp, the cached data and prices and the feature count of
  the composite are as before.
\<close>

theorem Composite_reset_resets_each_child_once:
  "Composite_reset reset c
     = (c\<lparr>comp_dataSources := map reset (comp_dataSources c)\<rparr>,
        [0..<length (comp_dataSources c)])"
  by (simp add: Composite_reset_def resetEach_eq)

section \<open>Lookup of asset codes\<close>

lemma subscript_code_absent:
  assumes "assetIdx p c = None"
  shows "subscript_code p c
           = (if ledger p = [] then Inl (IndexError, p\<lparr>assetIdx := (assetIdx p)(c \<mapsto> 0)\<rparr>)
              else Inr (ledger p ! 0, p\<lparr>assetIdx := (assetIdx p)(c \<mapsto> 0)\<rparr>))"
  using assms by (simp add: subscript_code_def Let_def)

lemma close_code_absent:
  "assetIdx p c = None \<Longrightarrow> close_code p c price cost = Inl (OutOfRange, p)"
  by (simp add: close_code_def)

text \<open>
  Claim C9.  On a portfolio with at least one asset whose index map holds exactly the
  codes of its asset set, \<^verbatim>\<open>operator[]\<close> with a code that is not in the asset set raises
  nothing: it returns the ledger entry at index 0 and leaves the code in the index map
  with index 0.  \<^verbatim>\<open>close\<close> with the same code on the same portfolio throws
  \<^verbatim>\<open>std::out_of_range\<close> and writes nothing.
\<close>

theorem subscript_unknown_code_inserts:
  assumes "dom (assetIdx p) = code ` set (assets p)" and "c \<notin> code ` set (assets p)"
    and "ledger p \<noteq> []"
  shows "subscript_code p c = Inr (ledger p ! 0, p\<lparr>assetIdx := (assetIdx p)(c \<mapsto> 0)\<rparr>)
     \<and> assetIdx p c = None
     \<and> close_code p c price cost = Inl (OutOfRange, p)"
proof -
  from assms(1,2) have "assetIdx p c = None" by blast
  with assms(3) show ?thesis
    by (simp add: subscript_code_absent close_code_absent)
qed

theorem subscript_unknown_code_inserts_witness:
  "dom (assetIdx longPortfolio) = code ` set (assets longPortfolio)
   \<and> ''ZZZ'' \<notin> code ` set (assets longPortfolio)
   \<and> ledger longPortfolio \<noteq> []
   \<and> subscript_code longPortfolio ''ZZZ''
        = Inr (10, longPortfolio\<lparr>assetIdx := [''X'' \<mapsto> 0, ''ZZZ'' \<mapsto> 0]\<rparr>)
   \<and> close_code longPortfolio ''ZZZ'' 10 0 = Inl (OutOfRange, longPortfolio)"
proof -
  have a: "dom (assetIdx longPortfolio) = code ` set (assets longPortfolio)"
    and b: "''ZZZ'' \<notin> code ` set (assets longPortfolio)"
    and c: "ledger longPortfolio \<noteq> []"
    by (simp_all add: longPortfolio_def assetX_def)
  have d: "ledger longPortfolio ! 0 = 10" "assetIdx longPortfolio = [''X'' \<mapsto> 0]"
    by (simp_all add: longPortfolio_def)
  from subscript_unknown_code_inserts [OF a b c, of 10 0] a b c d
  show ?thesis by simp
qed

text \<open>
  Claim C8 on a portfolio over the asset set X, for the code ZZZ, which is not in the
  asset set: \<^verbatim>\<open>close\<close> with ZZZ throws \<^verbatim>\<open>std::out_of_range\<close> and writes nothing; but once
  \<^verbatim>\<open>operator[]\<close> has been called with ZZZ, the checked lookup of \<^verbatim>\<open>close\<close> finds ZZZ with
  index 0 and the call is the close of asset 0, the same as \<^verbatim>\<open>close\<close> with the code X.
\<close>

theorem close_unknown_code_after_subscript:
  "''ZZZ'' \<notin> code ` set (assets longPortfolio)
   \<and> close_code longPortfolio ''ZZZ'' 10 0 = Inl (OutOfRange, longPortfolio)
   \<and> subscript_code longPortfolio ''ZZZ''
        = Inr (10, longPortfolio\<lparr>assetIdx := [''X'' \<mapsto> 0, ''ZZZ'' \<mapsto> 0]\<rparr>)
   \<and> close_code (longPortfolio\<lparr>assetIdx := [''X'' \<mapsto> 0, ''ZZZ'' \<mapsto> 0]\<rparr>) ''ZZZ'' 10 0
        = close (longPortfolio\<lparr>assetIdx := [''X'' \<mapsto> 0, ''ZZZ'' \<mapsto> 0]\<rparr>) 0 10 0
   \<and> close_code (longPortfolio\<lparr>assetIdx := [''X'' \<mapsto> 0, ''ZZZ'' \<mapsto> 0]\<rparr>) ''ZZZ'' 10 0
        = close_code (longPortfolio\<lparr>assetIdx := [''X'' \<mapsto> 0, ''ZZZ'' \<mapsto> 0]\<rparr>) ''X'' 10 0"
  by (simp add: subscript_code_def close_code_def Let_def longPortfolio_def assetX_def)

end
